theory Spec2Isabelle
  imports Complex_Main "HOL-Library.Word"
begin

section \<open>The declarations of TensorflowCompute.h\<close>

text \<open>
  \<^verbatim>\<open>enum class FORCE_MODE { overwrite, add, ignore, output };\<close>
\<close>

datatype FORCE_MODE = overwrite | add | ignore | output_mode

text \<open>\<^verbatim>\<open>FORCE_MODE::output\<close> is \<open>output_mode\<close>: \<open>output\<close> is a keyword of Isabelle.\<close>

text \<open>
  The buffer accessors return \<^verbatim>\<open>reinterpret_cast<int64_t>\<close> of a pointer expression
  \<^verbatim>\<open>_input_buffer + n\<close> or \<^verbatim>\<open>_output_buffer + n\<close>. A pointer is kept as the buffer
  (the allocation) it points into and the index of the element it points at, counted in
  elements of the pointee type; the integer the cast yields is the bit pattern of that
  pointer. Pointer addition moves the element index and stays in the same buffer.
\<close>

datatype pointer = Pointer (region: nat) (element: nat)

definition ptr_add :: "pointer \<Rightarrow> nat \<Rightarrow> pointer" where
  "ptr_add p n = Pointer (region p) (element p + n)"

text \<open>
  The members the inline accessors read. \<^verbatim>\<open>m_pdata->getN()\<close> is the particle count of
  HOOMD's ParticleData, an \<^verbatim>\<open>unsigned int\<close> like \<^verbatim>\<open>_nneighs\<close>; \<^verbatim>\<open>Scalar\<close> is the type
  parameter \<open>'s\<close>. \<^verbatim>\<open>_input_buffer\<close> and \<^verbatim>\<open>_output_buffer\<close> are used by the accessors but
  declared outside this header: they are fields here, with no assumption on their values.
\<close>

record 's TensorflowCompute =
  m_pdata_getN :: "32 word"
  r_cut :: 's
  nneighs :: "32 word"
  force_mode :: FORCE_MODE
  m_log_name :: string
  input_buffer :: pointer
  output_buffer :: pointer

text \<open>
  \<^verbatim>\<open>
  virtual int64_t get_forces_buffer() const {
      if(_force_mode == FORCE_MODE::output)
          //if forces are being output, get their location
          return reinterpret_cast<int64_t> (_output_buffer + m_pdata->getN() * (1 + _nneighs));
      return reinterpret_cast<int64_t> (_input_buffer);
  }
  \<close>
  The product \<^verbatim>\<open>m_pdata->getN() * (1 + _nneighs)\<close> is evaluated in \<^verbatim>\<open>unsigned int\<close>,
  modulo \<open>2 ^ 32\<close>, before it is added to the pointer.
\<close>

definition get_forces_buffer :: "('s, 'm) TensorflowCompute_scheme \<Rightarrow> pointer" where
  "get_forces_buffer s =
     (if force_mode s = output_mode
      then ptr_add (output_buffer s) (unat (m_pdata_getN s * (1 + nneighs s)))
      else input_buffer s)"

text \<open>
  \<^verbatim>\<open>
  virtual int64_t get_positions_buffer() const {return reinterpret_cast<int64_t> (_output_buffer);}
  virtual int64_t get_virial_buffer() const {return reinterpret_cast<int64_t> (_input_buffer + m_pdata->getN());}
  virtual int64_t get_nlist_buffer() const {return reinterpret_cast<int64_t> (_output_buffer + m_pdata->getN());}
  \<close>
\<close>

definition get_positions_buffer :: "('s, 'm) TensorflowCompute_scheme \<Rightarrow> pointer" where
  "get_positions_buffer s = output_buffer s"

definition get_virial_buffer :: "('s, 'm) TensorflowCompute_scheme \<Rightarrow> pointer" where
  "get_virial_buffer s = ptr_add (input_buffer s) (unat (m_pdata_getN s))"

definition get_nlist_buffer :: "('s, 'm) TensorflowCompute_scheme \<Rightarrow> pointer" where
  "get_nlist_buffer s = ptr_add (output_buffer s) (unat (m_pdata_getN s))"

text \<open>
  \<^verbatim>\<open>
  bool is_double_precision() const {
      #ifdef SINGLE_PRECISION
      return false;
      #else
      return true;
      #endif //SINGLE_PRECISION
  }
  \<close>
  Whether the macro \<^verbatim>\<open>SINGLE_PRECISION\<close> is defined is fixed when the plugin is
  compiled; it is the argument.
\<close>

definition is_double_precision :: "bool \<Rightarrow> bool" where
  "is_double_precision single_precision = (if single_precision then False else True)"

subsection \<open>Segments of a buffer\<close>

text \<open>
  The \<open>n\<close> elements starting at a pointer, as the set of (buffer, element index) pairs
  they occupy, and the test whether two such runs share an element.
\<close>

definition segment :: "pointer \<Rightarrow> nat \<Rightarrow> (nat \<times> nat) set" where
  "segment p n = {region p} \<times> {element p ..< element p + n}"

definition segments_overlap :: "pointer \<Rightarrow> nat \<Rightarrow> pointer \<Rightarrow> nat \<Rightarrow> bool" where
  "segments_overlap p n q m =
     (0 < n \<and> 0 < m \<and> region p = region q \<and>
      element p < element q + m \<and> element q < element p + n)"

text \<open>The particle count \<open>N\<close> and the neighbour count \<open>K\<close> as natural numbers.\<close>

definition N_of :: "('s, 'm) TensorflowCompute_scheme \<Rightarrow> nat" where
  "N_of s = unat (m_pdata_getN s)"

definition K_of :: "('s, 'm) TensorflowCompute_scheme \<Rightarrow> nat" where
  "K_of s = unat (nneighs s)"

text \<open>
  \<open>points_into p base lo hi\<close>: the pointer \<open>p\<close> points at one of the elements
  \<open>[lo, hi)\<close> of the buffer that starts at \<open>base\<close>.
\<close>

definition points_into :: "pointer \<Rightarrow> pointer \<Rightarrow> nat \<Rightarrow> nat \<Rightarrow> bool" where
  "points_into p base lo hi =
     (region p = region base \<and> element base + lo \<le> element p \<and> element p < element base + hi)"

section \<open>The operations declared without a body\<close>

text \<open>
  The header declares the constructor, \<^verbatim>\<open>getLogValue\<close>, \<^verbatim>\<open>reallocate\<close>,
  \<^verbatim>\<open>computeForces\<close>, \<^verbatim>\<open>sendPositions\<close>, \<^verbatim>\<open>sendNeighbors\<close>, \<^verbatim>\<open>sendForces\<close>,
  \<^verbatim>\<open>overwriteForces\<close>, \<^verbatim>\<open>addForces\<close> and \<^verbatim>\<open>receiveVirial\<close>; their bodies are in the
  plugin's implementation file, outside the header verified here. The definitions of
  this section follow the specification of the exchange coordinator instead, and say so.
\<close>

text \<open>
  Modelled from the spec: the force records and their elementwise sum are not defined
  in the header. HOOMD's \<^verbatim>\<open>Scalar4\<close> is four scalars \<^verbatim>\<open>x, y, z, w\<close>, built by
  \<^verbatim>\<open>make_scalar4\<close>; the sum of two records is taken component by component, with the
  addition of the scalar type.
\<close>

datatype 's Scalar4 = make_scalar4 (sx: 's) (sy: 's) (sz: 's) (sw: 's)

definition scalar4_add :: "'s::plus Scalar4 \<Rightarrow> 's Scalar4 \<Rightarrow> 's Scalar4" where
  "scalar4_add a b = make_scalar4 (sx a + sx b) (sy a + sy b) (sz a + sz b) (sw a + sw b)"

text \<open>
  Modelled from the spec: the header declares no error type. These are the failures of
  the specification's taxonomy, reported to the caller as values.
\<close>

datatype error =
  AllocationError | ChannelTimeout | LayoutMismatchError | ConfigurationError | RemapError

text \<open>
  Modelled from the spec: the body of \<^verbatim>\<open>overwriteForces\<close> is missing.
  "overwrite: mergedForces = externalForces elementwise; internal forces discarded", and
  a "particle count mismatch between internal and external arrays is a hard failure
  (LayoutMismatchError), not a best-effort truncation".
\<close>

definition overwriteForces :: "'s Scalar4 list \<Rightarrow> 's Scalar4 list \<Rightarrow> error + 's Scalar4 list" where
  "overwriteForces internalForces externalForces =
     (if length internalForces \<noteq> length externalForces then Inl LayoutMismatchError
      else Inr (map2 (\<lambda>internal external. external) internalForces externalForces))"

text \<open>
  Modelled from the spec: the body of \<^verbatim>\<open>addForces\<close> is missing.
  "add: mergedForces = internalForces + externalForces elementwise", with the same
  hard failure on a particle count mismatch.
\<close>

definition addForces :: "'s::plus Scalar4 list \<Rightarrow> 's Scalar4 list \<Rightarrow> error + 's Scalar4 list" where
  "addForces internalForces externalForces =
     (if length internalForces \<noteq> length externalForces then Inl LayoutMismatchError
      else Inr (map2 scalar4_add internalForces externalForces))"

text \<open>
  Modelled from the spec: the force merge policy \<open>apply(mode, internalForces,
  externalForces)\<close>, which the missing body of \<^verbatim>\<open>computeForces\<close> selects by
  \<^verbatim>\<open>_force_mode\<close>. In \<open>ignore\<close> mode the external payload is received but "not read
  into the result"; in \<open>output\<close> mode "no merge occurs" and "the simulation's own forces
  pass through unmodified".
\<close>

definition ForceMergePolicy_apply ::
  "FORCE_MODE \<Rightarrow> 's::plus Scalar4 list \<Rightarrow> 's Scalar4 list \<Rightarrow> error + 's Scalar4 list" where
  "ForceMergePolicy_apply mode internalForces externalForces =
     (case mode of
        overwrite \<Rightarrow> overwriteForces internalForces externalForces
      | add \<Rightarrow> addForces internalForces externalForces
      | ignore \<Rightarrow> Inr internalForces
      | output_mode \<Rightarrow> Inr internalForces)"

text \<open>
  Modelled from the spec: the members that the missing bodies work on are not all in the
  header. The states of the coordinator's step, and the coordinator: the members of the
  header together with what the specification attaches to them (the step state, the reported
  fault, the allocated capacity and the particle count it was allocated for, whether the
  cross-process mapping of the buffers is established, the merged forces and virial
  handed back to the engine, the last value of the logged quantity).
\<close>

datatype coordinator_state =
  Idle | PositionsSent | NeighborsSent | AwaitingForces | ForcesMerged | VirialReceived | Faulted

record 's ExchangeCoordinator = "'s TensorflowCompute" +
  state :: coordinator_state
  fault :: "error option"
  capacity :: nat
  allocated_N :: "32 word"
  mapped :: bool
  m_force :: "'s Scalar4 list"
  m_virial :: "'s list"
  log_value :: "'s option"

text \<open>
  Modelled from the spec: the body of the constructor is missing. It takes the particle
  data (here its particle count), the cutoff radius, the neighbour count and the force
  mode; the buffers "are created at ExchangeCoordinator construction sized to the particle
  count known at that time". The name of the logged quantity and the addresses of the two
  buffers are chosen by the environment.
\<close>

definition TensorflowCompute_ctor ::
  "32 word \<Rightarrow> 's \<Rightarrow> 32 word \<Rightarrow> FORCE_MODE \<Rightarrow> string \<Rightarrow> pointer \<Rightarrow> pointer
     \<Rightarrow> 's ExchangeCoordinator" where
  "TensorflowCompute_ctor N rcut nn mode log_name inbuf outbuf =
     \<lparr>m_pdata_getN = N, r_cut = rcut, nneighs = nn, force_mode = mode,
      m_log_name = log_name, input_buffer = inbuf, output_buffer = outbuf,
      state = Idle, fault = None, capacity = unat N * (1 + unat nn), allocated_N = N,
      mapped = True,
      m_force = [], m_virial = [], log_value = None\<rparr>"

text \<open>
  Modelled from the spec: the body of \<^verbatim>\<open>getLogValue\<close> is missing. It is a "pure read
  accessor for a named scalar diagnostic; never mutates state, safe to call from any
  state including Faulted (returns last-known value or a sentinel)". The result is the
  value together with the coordinator after the call.
\<close>

definition getLogValue ::
  "'s \<Rightarrow> string \<Rightarrow> 32 word \<Rightarrow> 's ExchangeCoordinator \<Rightarrow> 's \<times> 's ExchangeCoordinator" where
  "getLogValue sentinel quantity timestep s =
     (if quantity = m_log_name s
      then (case log_value s of Some v \<Rightarrow> v | None \<Rightarrow> sentinel)
      else sentinel,
      s)"

text \<open>
  Modelled from the spec: the bodies of \<^verbatim>\<open>ipcmmap\<close> and \<^verbatim>\<open>ipcmunmap\<close> are missing. They
  are the two halves of the specification's remap, which "tears down and re-establishes
  the cross-process mapping": \<^verbatim>\<open>ipcmunmap\<close> releases the mapping of the buffers ("all
  cross-process mappings must be unmapped/released before the memory is freed"), and
  \<^verbatim>\<open>ipcmmap\<close> establishes one, which fails with \<open>AllocationError\<close> "if the transport cannot
  establish a new shared mapping". The argument of \<^verbatim>\<open>ipcmmap\<close> is the mapping the
  transport established, if any: the addresses of the input and the output buffer.
\<close>

definition ipcmunmap :: "'s ExchangeCoordinator \<Rightarrow> 's ExchangeCoordinator" where
  "ipcmunmap s = s\<lparr>mapped := False\<rparr>"

definition ipcmmap ::
  "(pointer \<times> pointer) option \<Rightarrow> 's ExchangeCoordinator \<Rightarrow> error + 's ExchangeCoordinator" where
  "ipcmmap mapping s =
     (case mapping of
        None \<Rightarrow> Inl AllocationError
      | Some (inbuf, outbuf) \<Rightarrow>
          Inr (s\<lparr>input_buffer := inbuf, output_buffer := outbuf, mapped := True\<rparr>))"

text \<open>
  Modelled from the spec: the body of \<^verbatim>\<open>reallocate\<close> is missing. Reallocation "fails with
  AllocationError if the transport cannot establish a new shared mapping" and "releases
  the old region only after the new one is fully established"; the capacity "grows
  monotonically on reallocation, never shrinks" and is at least \<open>N \<sqdot> (1 + K)\<close>
  afterwards.
\<close>

definition reallocate ::
  "(pointer \<times> pointer) option \<Rightarrow> 's ExchangeCoordinator \<Rightarrow> error + 's ExchangeCoordinator" where
  "reallocate mapping s =
     (case ipcmmap mapping s of
        Inl e \<Rightarrow> Inl e
      | Inr s' \<Rightarrow>
          Inr (s'\<lparr>capacity := max (capacity s) (N_of s * (1 + K_of s)),
                  allocated_N := m_pdata_getN s\<rparr>))"

text \<open>
  Modelled from the spec: the bodies of \<^verbatim>\<open>sendPositions\<close>, \<^verbatim>\<open>sendNeighbors\<close>,
  \<^verbatim>\<open>sendForces\<close> and \<^verbatim>\<open>receiveVirial\<close> are missing. Each is a blocking exchange over its
  channel that moves the step's state machine on; \<^verbatim>\<open>sendForces\<close> is the export of
  \<open>output\<close> mode, which "returns immediately", and \<^verbatim>\<open>receiveVirial\<close> stores the virial
  the external process wrote.
\<close>

definition sendPositions :: "'s ExchangeCoordinator \<Rightarrow> 's ExchangeCoordinator" where
  "sendPositions s = s\<lparr>state := PositionsSent\<rparr>"

definition sendNeighbors :: "'s ExchangeCoordinator \<Rightarrow> 's ExchangeCoordinator" where
  "sendNeighbors s = s\<lparr>state := NeighborsSent\<rparr>"

definition sendForces :: "'s Scalar4 list \<Rightarrow> 's ExchangeCoordinator \<Rightarrow> 's ExchangeCoordinator" where
  "sendForces internalForces s = s\<lparr>m_force := internalForces, state := Idle\<rparr>"

definition receiveVirial :: "'s list \<Rightarrow> 's ExchangeCoordinator \<Rightarrow> 's ExchangeCoordinator" where
  "receiveVirial virial s = s\<lparr>m_virial := virial, state := VirialReceived\<rparr>"

text \<open>
  Modelled from the spec: a failure "transitions to a terminal Faulted state and reports
  the error upward"; the coordinator keeps the error it reported.
\<close>

definition faulted :: "error \<Rightarrow> 's ExchangeCoordinator \<Rightarrow> 's ExchangeCoordinator" where
  "faulted e s = s\<lparr>state := Faulted, fault := Some e\<rparr>"

text \<open>
  Modelled from the spec: the body of \<^verbatim>\<open>computeForces\<close> is missing. One step: a faulted
  coordinator fails at once "without touching buffers"; a changed particle count
  reallocates first, and an allocation failure leaves the coordinator in \<open>Idle\<close>; then
  positions and neighbours are sent; \<open>output\<close> mode "skips await forces entirely";
  otherwise a missing reply is a \<open>ChannelTimeout\<close>, the forces are merged by the policy,
  the virial is received and the coordinator returns to \<open>Idle\<close>. "Failure at any
  send/receive transitions to a terminal Faulted state and reports the error upward."
  The arguments after the timestep are what the environment supplies in this step: the
  mapping of a reallocation, the simulation's own forces, and the reply of the external
  process (its forces and virial); \<open>diagnostic\<close> computes the logged quantity.
\<close>

definition computeForces ::
  "('s Scalar4 list \<Rightarrow> 's) \<Rightarrow> 32 word \<Rightarrow> (pointer \<times> pointer) option \<Rightarrow> 's::plus Scalar4 list
     \<Rightarrow> ('s Scalar4 list \<times> 's list) option \<Rightarrow> 's ExchangeCoordinator
     \<Rightarrow> error option \<times> 's ExchangeCoordinator" where
  "computeForces diagnostic timestep mapping internalForces reply s =
     (if state s = Faulted then (fault s, s)
      else
        case (if m_pdata_getN s \<noteq> allocated_N s then reallocate mapping s else Inr s) of
          Inl e \<Rightarrow> (Some e, s)
        | Inr s1 \<Rightarrow>
            let s2 = sendNeighbors (sendPositions s1) in
            if force_mode s2 = output_mode then (None, sendForces internalForces s2)
            else
              case reply of
                None \<Rightarrow> (Some ChannelTimeout, faulted ChannelTimeout s2)
              | Some (externalForces, virial) \<Rightarrow>
                  (case ForceMergePolicy_apply (force_mode s2) internalForces externalForces of
                     Inl e \<Rightarrow> (Some e, faulted e s2)
                   | Inr merged \<Rightarrow>
                       (None,
                        (receiveVirial virial (s2\<lparr>m_force := merged, state := ForcesMerged\<rparr>))
                          \<lparr>log_value := Some (diagnostic externalForces), state := Idle\<rparr>)))"

text \<open>
  What can happen to a coordinator after its construction: a call of one of its public
  or protected operations, or the engine changing the particle count between steps
  ("N is authoritative from the simulation engine and may change between steps").
  There is one operation for each member function the class declares, public
  (\<^verbatim>\<open>getLogValue\<close>, the four buffer accessors, \<^verbatim>\<open>is_double_precision\<close>, the four array
  accessors) and protected (\<^verbatim>\<open>reallocate\<close>, \<^verbatim>\<open>computeForces\<close>, \<^verbatim>\<open>sendPositions\<close>,
  \<^verbatim>\<open>sendNeighbors\<close>, \<^verbatim>\<open>sendForces\<close>, \<^verbatim>\<open>overwriteForces\<close>, \<^verbatim>\<open>addForces\<close>,
  \<^verbatim>\<open>receiveVirial\<close>, \<^verbatim>\<open>ipcmmap\<close>, \<^verbatim>\<open>ipcmunmap\<close>). The buffer accessors,
  \<^verbatim>\<open>is_double_precision\<close> and the array accessors \<^verbatim>\<open>get_forces_array\<close>,
  \<^verbatim>\<open>get_nlist_array\<close>, \<^verbatim>\<open>get_positions_array\<close> and \<^verbatim>\<open>get_virial_array\<close> are declared
  \<^verbatim>\<open>const\<close> in the header: they return a value and leave the members of the object as
  they are.
\<close>

datatype 's operation =
    GetLogValue 's string "32 word"
  | GetForcesBuffer
  | GetPositionsBuffer
  | GetVirialBuffer
  | GetNlistBuffer
  | IsDoublePrecision
  | GetForcesArray
  | GetNlistArray
  | GetPositionsArray
  | GetVirialArray
  | Reallocate "(pointer \<times> pointer) option"
  | ComputeForces "'s Scalar4 list \<Rightarrow> 's" "32 word" "(pointer \<times> pointer) option"
      "'s Scalar4 list" "('s Scalar4 list \<times> 's list) option"
  | SendPositions
  | SendNeighbors
  | SendForces "'s Scalar4 list"
  | OverwriteForces "'s Scalar4 list"
  | AddForces "'s Scalar4 list"
  | ReceiveVirial "'s list"
  | Ipcmmap "(pointer \<times> pointer) option"
  | Ipcmunmap
  | ParticleCountChanged "32 word"

text \<open>
  Modelled from the spec: \<^verbatim>\<open>overwriteForces\<close> and \<^verbatim>\<open>addForces\<close> as member functions
  merge the received forces into the forces of the coordinator; a mismatch of the
  particle counts faults the coordinator.
\<close>

definition store_merged ::
  "error + 's Scalar4 list \<Rightarrow> 's ExchangeCoordinator \<Rightarrow> 's ExchangeCoordinator" where
  "store_merged r s =
     (case r of Inl e \<Rightarrow> faulted e s | Inr merged \<Rightarrow> s\<lparr>m_force := merged, state := ForcesMerged\<rparr>)"

text \<open>The effect of one operation on the coordinator, and of a sequence of them.\<close>

fun perform :: "'s::plus operation \<Rightarrow> 's ExchangeCoordinator \<Rightarrow> 's ExchangeCoordinator" where
  "perform (GetLogValue sentinel quantity timestep) s = snd (getLogValue sentinel quantity timestep s)"
| "perform GetForcesBuffer s = s"
| "perform GetPositionsBuffer s = s"
| "perform GetVirialBuffer s = s"
| "perform GetNlistBuffer s = s"
| "perform IsDoublePrecision s = s"
| "perform GetForcesArray s = s"
| "perform GetNlistArray s = s"
| "perform GetPositionsArray s = s"
| "perform GetVirialArray s = s"
| "perform (Reallocate mapping) s = (case reallocate mapping s of Inl e \<Rightarrow> s | Inr s' \<Rightarrow> s')"
| "perform (ComputeForces diagnostic timestep mapping internalForces reply) s =
     snd (computeForces diagnostic timestep mapping internalForces reply s)"
| "perform SendPositions s = sendPositions s"
| "perform SendNeighbors s = sendNeighbors s"
| "perform (SendForces internalForces) s = sendForces internalForces s"
| "perform (OverwriteForces externalForces) s =
     store_merged (overwriteForces (m_force s) externalForces) s"
| "perform (AddForces externalForces) s = store_merged (addForces (m_force s) externalForces) s"
| "perform (ReceiveVirial virial) s = receiveVirial virial s"
| "perform (Ipcmmap mapping) s = (case ipcmmap mapping s of Inl e \<Rightarrow> s | Inr s' \<Rightarrow> s')"
| "perform Ipcmunmap s = ipcmunmap s"
| "perform (ParticleCountChanged N) s = s\<lparr>m_pdata_getN := N\<rparr>"

fun run :: "'s::plus operation list \<Rightarrow> 's ExchangeCoordinator \<Rightarrow> 's ExchangeCoordinator" where
  "run [] s = s"
| "run (op # ops) s = run ops (perform op s)"

subsection \<open>Concrete coordinators\<close>

text \<open>
  \<open>coordinator N K mode\<close> is the object with \<open>N\<close> particles, \<open>K\<close> neighbours per
  particle and the given mode, whose input buffer is allocation 0 and whose output
  buffer is allocation 1.
\<close>

abbreviation coordinator :: "32 word \<Rightarrow> 32 word \<Rightarrow> FORCE_MODE \<Rightarrow> real TensorflowCompute" where
  "coordinator N K mode \<equiv>
     \<lparr>m_pdata_getN = N, r_cut = 1, nneighs = K, force_mode = mode, m_log_name = ''tensorflow'',
      input_buffer = Pointer 0 0, output_buffer = Pointer 1 0\<rparr>"


section \<open>Properties of the buffer accessors\<close>

lemma segments_overlap_iff:
  "segments_overlap p n q m \<longleftrightarrow> segment p n \<inter> segment q m \<noteq> {}"
proof
  assume h: "segments_overlap p n q m"
  then have "(region p, max (element p) (element q)) \<in> segment p n \<inter> segment q m"
    by (auto simp: segments_overlap_def segment_def max_def)
  then show "segment p n \<inter> segment q m \<noteq> {}" by blast
next
  assume "segment p n \<inter> segment q m \<noteq> {}"
  then obtain b i where "(b, i) \<in> segment p n" "(b, i) \<in> segment q m" by auto
  then show "segments_overlap p n q m"
    by (auto simp: segments_overlap_def segment_def)
qed

lemma unat_layout_product:
  fixes n k :: "32 word"
  assumes "unat n * (1 + unat k) < 2 ^ 32"
  shows "unat (n * (1 + k)) = unat n * (1 + unat k)"
proof (cases "n = 0")
  case True
  then show ?thesis by simp
next
  case False
  then have "0 < unat n" by (simp add: unat_gt_0)
  then have "1 * (1 + unat k) \<le> unat n * (1 + unat k)"
    by (intro mult_le_mono1) simp
  with assms have k: "1 + unat k < 2 ^ 32" by simp
  then have "unat (1 + k) = 1 + unat k"
    by (simp add: unat_word_ariths)
  with assms show ?thesis
    by (simp add: unat_word_ariths)
qed

lemma layout_disjoint_without_overflow:
  assumes "region (input_buffer s) \<noteq> region (output_buffer s)"
    and "N_of s * (1 + K_of s) < 2 ^ 32"
  shows "\<not> segments_overlap (get_positions_buffer s) (N_of s) (get_nlist_buffer s) (N_of s * K_of s)"
    and "\<not> segments_overlap (get_positions_buffer s) (N_of s) (get_forces_buffer s) (N_of s)"
    and "\<not> segments_overlap (get_positions_buffer s) (N_of s) (get_virial_buffer s) v"
    and "\<not> segments_overlap (get_nlist_buffer s) (N_of s * K_of s) (get_forces_buffer s) (N_of s)"
    and "\<not> segments_overlap (get_nlist_buffer s) (N_of s * K_of s) (get_virial_buffer s) v"
    and "\<not> segments_overlap (get_forces_buffer s) (N_of s) (get_virial_buffer s) v"
  using assms
  by (auto simp: segments_overlap_def get_positions_buffer_def get_nlist_buffer_def
      get_forces_buffer_def get_virial_buffer_def ptr_add_def N_of_def K_of_def
      unat_layout_product [simplified])

subsection \<open>The address of the forces channel\<close>

text \<open>
  C1, as stated: in \<open>output\<close> mode \<^verbatim>\<open>get_forces_buffer\<close> points at the position echo,
  elements \<open>[N, N \<sqdot> (1 + K))\<close> of the force buffer. It does not: with 2 particles and 3
  neighbours the address is element 8 of the output buffer, which is in neither buffer's
  elements \<open>[2, 8)\<close>.
\<close>

theorem get_forces_buffer_echo_counterexample:
  "get_forces_buffer (coordinator 2 3 output_mode) = Pointer 1 8 \<and>
   \<not> points_into (get_forces_buffer (coordinator 2 3 output_mode))
        (input_buffer (coordinator 2 3 output_mode)) 2 (2 * (1 + 3)) \<and>
   \<not> points_into (get_forces_buffer (coordinator 2 3 output_mode))
        (output_buffer (coordinator 2 3 output_mode)) 2 (2 * (1 + 3))"
  by (simp add: points_into_def get_forces_buffer_def ptr_add_def)

text \<open>
  C1, amended: in \<open>output\<close> mode, when \<open>N \<sqdot> (1 + K)\<close> fits an \<^verbatim>\<open>unsigned int\<close>,
  \<^verbatim>\<open>get_forces_buffer\<close> points \<open>N \<sqdot> (1 + K)\<close> elements past the base of the output buffer,
  which is the first element after the \<open>N \<sqdot> K\<close> elements of the neighbour table that
  \<^verbatim>\<open>get_nlist_buffer\<close> exposes; it is not one of the elements \<open>[N, N \<sqdot> (1 + K))\<close> of the
  output buffer, nor, when the input buffer is another allocation than the output
  buffer, of the input buffer. In every other mode it is the base of the input buffer.
\<close>

theorem get_forces_buffer_location:
  "(force_mode s = output_mode \<and> N_of s * (1 + K_of s) < 2 ^ 32 \<longrightarrow>
      get_forces_buffer s = ptr_add (output_buffer s) (N_of s * (1 + K_of s)) \<and>
      get_forces_buffer s = ptr_add (get_nlist_buffer s) (N_of s * K_of s) \<and>
      \<not> points_into (get_forces_buffer s) (output_buffer s)
          (N_of s) (N_of s * (1 + K_of s)) \<and>
      (region (input_buffer s) \<noteq> region (output_buffer s) \<longrightarrow>
         \<not> points_into (get_forces_buffer s) (input_buffer s)
             (N_of s) (N_of s * (1 + K_of s)))) \<and>
   (force_mode s \<noteq> output_mode \<longrightarrow> get_forces_buffer s = input_buffer s)"
  by (auto simp: get_forces_buffer_def get_nlist_buffer_def ptr_add_def N_of_def K_of_def
      points_into_def unat_layout_product [simplified])

text \<open>Both cases of the amended C1 at concrete coordinators with 2 particles, 3 neighbours.\<close>

theorem get_forces_buffer_location_witness:
  "force_mode (coordinator 2 3 output_mode) = output_mode \<and>
   N_of (coordinator 2 3 output_mode) * (1 + K_of (coordinator 2 3 output_mode)) < 2 ^ 32 \<and>
   region (input_buffer (coordinator 2 3 output_mode))
     \<noteq> region (output_buffer (coordinator 2 3 output_mode)) \<and>
   get_forces_buffer (coordinator 2 3 output_mode) = Pointer 1 8 \<and>
   \<not> points_into (get_forces_buffer (coordinator 2 3 output_mode)) (Pointer 1 0) 2 8 \<and>
   \<not> points_into (get_forces_buffer (coordinator 2 3 output_mode)) (Pointer 0 0) 2 8 \<and>
   force_mode (coordinator 2 3 add) \<noteq> output_mode \<and>
   get_forces_buffer (coordinator 2 3 add) = Pointer 0 0"
  using get_forces_buffer_location [of "coordinator 2 3 output_mode"]
    get_forces_buffer_location [of "coordinator 2 3 add"]
  by (auto simp: N_of_def K_of_def ptr_add_def)

subsection \<open>Overlap of the exposed segments\<close>

text \<open>
  C2 at 65536 particles with 65535 neighbours each in \<open>output\<close> mode: the product
  \<open>65536 \<sqdot> (1 + 65535)\<close> is \<open>2 ^ 32\<close>, which is 0 in \<^verbatim>\<open>unsigned int\<close>, so the forces are
  exposed at the address of the positions and the two segments of \<open>N\<close> elements coincide.
  The same happens for one particle with \<open>2 ^ 32 - 1\<close> neighbours, where \<^verbatim>\<open>1 + _nneighs\<close>
  alone is 0.
\<close>

theorem forces_overlap_positions_on_overflow:
  "get_forces_buffer (coordinator 65536 65535 output_mode)
     = get_positions_buffer (coordinator 65536 65535 output_mode) \<and>
   segments_overlap
     (get_positions_buffer (coordinator 65536 65535 output_mode))
     (N_of (coordinator 65536 65535 output_mode))
     (get_forces_buffer (coordinator 65536 65535 output_mode))
     (N_of (coordinator 65536 65535 output_mode)) \<and>
   get_forces_buffer (coordinator 1 4294967295 output_mode)
     = get_positions_buffer (coordinator 1 4294967295 output_mode)"
  by (simp add: segments_overlap_def get_forces_buffer_def get_positions_buffer_def
      ptr_add_def N_of_def)

subsection \<open>The virial and neighbour addresses\<close>

text \<open>
  C3: in every mode the address \<^verbatim>\<open>get_virial_buffer\<close> returns is in the input buffer,
  exactly \<open>N\<close> elements past its base; in the modes that receive forces this base is the
  address \<^verbatim>\<open>get_forces_buffer\<close> returns.
\<close>

theorem get_virial_buffer_offset:
  "get_virial_buffer s = ptr_add (input_buffer s) (N_of s) \<and>
   region (get_virial_buffer s) = region (input_buffer s) \<and>
   element (get_virial_buffer s) = element (input_buffer s) + N_of s \<and>
   (force_mode s \<noteq> output_mode \<longrightarrow>
      get_virial_buffer s = ptr_add (get_forces_buffer s) (N_of s))"
  by (simp add: get_virial_buffer_def get_forces_buffer_def ptr_add_def N_of_def)

text \<open>C3 at a coordinator with 2 particles in \<open>add\<close> mode.\<close>

theorem get_virial_buffer_offset_witness:
  "force_mode (coordinator 2 3 add) \<noteq> output_mode \<and>
   get_forces_buffer (coordinator 2 3 add) = Pointer 0 0 \<and>
   get_virial_buffer (coordinator 2 3 add) = Pointer 0 2"
  using get_virial_buffer_offset [of "coordinator 2 3 add"]
  by (simp add: N_of_def ptr_add_def get_forces_buffer_def)

text \<open>
  C4: the address \<^verbatim>\<open>get_nlist_buffer\<close> returns is in the buffer of the positions, exactly
  \<open>N\<close> elements past \<^verbatim>\<open>get_positions_buffer\<close>; the \<open>N\<close> position elements and the
  \<open>N \<sqdot> K\<close> neighbour elements are disjoint and together are the first \<open>N \<sqdot> (1 + K)\<close>
  elements from the position base.
\<close>

theorem get_nlist_buffer_partition:
  "region (get_nlist_buffer s) = region (get_positions_buffer s) \<and>
   element (get_nlist_buffer s) = element (get_positions_buffer s) + N_of s \<and>
   segment (get_positions_buffer s) (N_of s) \<union> segment (get_nlist_buffer s) (N_of s * K_of s)
     = segment (get_positions_buffer s) (N_of s * (1 + K_of s)) \<and>
   segment (get_positions_buffer s) (N_of s) \<inter> segment (get_nlist_buffer s) (N_of s * K_of s)
     = {}"
  by (auto simp: get_nlist_buffer_def get_positions_buffer_def ptr_add_def N_of_def K_of_def
      segment_def)

text \<open>
  C9: changing only the force mode of a coordinator changes none of the addresses of
  the positions, neighbour and virial channels; the address of the forces channel is the
  one that can change.
\<close>

theorem buffers_independent_of_force_mode:
  "get_positions_buffer (s\<lparr>force_mode := m\<rparr>)
     = get_positions_buffer (s :: ('s, 'm) TensorflowCompute_scheme) \<and>
   get_nlist_buffer (s\<lparr>force_mode := m\<rparr>) = get_nlist_buffer s \<and>
   get_virial_buffer (s\<lparr>force_mode := m\<rparr>) = get_virial_buffer s \<and>
   (\<exists>s' m'. get_forces_buffer (s'\<lparr>force_mode := m'\<rparr>)
      \<noteq> get_forces_buffer (s' :: ('s, 'm) TensorflowCompute_scheme))"
proof -
  let ?s = "s\<lparr>force_mode := overwrite, input_buffer := Pointer 0 0,
    output_buffer := Pointer 1 0\<rparr>"
  have "get_forces_buffer (?s\<lparr>force_mode := output_mode\<rparr>) \<noteq> get_forces_buffer ?s"
    by (simp add: get_forces_buffer_def ptr_add_def)
  then have "\<exists>s' m'. get_forces_buffer (s'\<lparr>force_mode := m'\<rparr>)
      \<noteq> get_forces_buffer (s' :: ('s, 'm) TensorflowCompute_scheme)"
    by blast
  then show ?thesis
    by (simp add: get_positions_buffer_def get_nlist_buffer_def get_virial_buffer_def)
qed

section \<open>Properties of the operations modelled from the specification\<close>

subsection \<open>Merging the forces\<close>

text \<open>
  C5: in \<open>add\<close> mode, for internal and external force arrays of the same length \<open>N\<close>,
  \<^verbatim>\<open>addForces\<close> produces a merged array of length \<open>N\<close> whose element \<open>i\<close> is the sum of
  the internal and the external element \<open>i\<close>, for every \<open>i < N\<close>.
\<close>

theorem addForces_elementwise:
  assumes "length internalForces = N" and "length externalForces = N"
  shows "\<exists>merged. addForces internalForces externalForces = Inr merged \<and>
           ForceMergePolicy_apply add internalForces externalForces = Inr merged \<and>
           length merged = N \<and>
           (\<forall>i<N. merged ! i = scalar4_add (internalForces ! i) (externalForces ! i))"
  using assms by (simp add: addForces_def ForceMergePolicy_apply_def)

text \<open>C5 at two particles.\<close>

theorem addForces_elementwise_witness:
  "addForces [make_scalar4 1 2 3 (0::real), make_scalar4 0 0 1 0]
             [make_scalar4 (-1) 5 0 0, make_scalar4 2 2 2 2]
     = Inr [make_scalar4 0 7 3 0, make_scalar4 2 2 3 2]"
proof -
  let ?i = "[make_scalar4 1 2 3 (0::real), make_scalar4 0 0 1 0]"
  let ?e = "[make_scalar4 (-1) 5 0 (0::real), make_scalar4 2 2 2 2]"
  have l: "length ?i = 2" "length ?e = 2" by simp_all
  from addForces_elementwise [OF l] obtain merged where
    m: "addForces ?i ?e = Inr merged" "length merged = 2"
       "\<forall>i<2. merged ! i = scalar4_add (?i ! i) (?e ! i)" by blast
  from m(3) have "merged ! 0 = make_scalar4 0 7 3 0" "merged ! 1 = make_scalar4 2 2 3 2"
    by (simp_all add: scalar4_add_def)
  with m(2) have "merged = [make_scalar4 0 7 3 0, make_scalar4 2 2 3 2]"
    by (auto simp: list_eq_iff_nth_eq less_Suc_eq numeral_2_eq_2)
  with m(1) show ?thesis by simp
qed

text \<open>
  C6: in \<open>overwrite\<close> mode, for internal and external force arrays of the same length
  \<open>N\<close>, \<^verbatim>\<open>overwriteForces\<close> produces a merged array of length \<open>N\<close> whose element \<open>i\<close> is
  the external element \<open>i\<close>, whatever the internal forces are.
\<close>

theorem overwriteForces_elementwise:
  assumes "length internalForces = N" and "length externalForces = N"
  shows "\<exists>merged. overwriteForces internalForces externalForces = Inr merged \<and>
           ForceMergePolicy_apply overwrite internalForces externalForces = Inr merged \<and>
           length merged = N \<and>
           (\<forall>i<N. merged ! i = externalForces ! i)"
  using assms by (simp add: overwriteForces_def ForceMergePolicy_apply_def)

text \<open>C6 at two particles.\<close>

theorem overwriteForces_elementwise_witness:
  "overwriteForces [make_scalar4 1 2 3 (0::real), make_scalar4 0 0 1 0]
                   [make_scalar4 (-1) 5 0 0, make_scalar4 2 2 2 2]
     = Inr [make_scalar4 (-1) 5 0 0, make_scalar4 2 2 2 2]"
proof -
  let ?i = "[make_scalar4 1 2 3 (0::real), make_scalar4 0 0 1 0]"
  let ?e = "[make_scalar4 (-1) 5 0 (0::real), make_scalar4 2 2 2 2]"
  have l: "length ?i = 2" "length ?e = 2" by simp_all
  from overwriteForces_elementwise [OF l] obtain merged where
    m: "overwriteForces ?i ?e = Inr merged" "length merged = 2"
       "\<forall>i<2. merged ! i = ?e ! i" by blast
  from m(2,3) have "merged = ?e"
    by (auto simp: list_eq_iff_nth_eq)
  with m(1) show ?thesis by simp
qed

subsection \<open>Reading the logged quantity\<close>

text \<open>
  C7: for every quantity name and timestep, and in every state of the coordinator
  (\<open>Faulted\<close> included), the coordinator after \<^verbatim>\<open>getLogValue\<close> is the coordinator before
  it; the value returned is the last known value of the quantity or the sentinel.
\<close>

theorem getLogValue_frame:
  "snd (getLogValue sentinel quantity timestep s) = s \<and>
   (fst (getLogValue sentinel quantity timestep s) = sentinel \<or>
    log_value s = Some (fst (getLogValue sentinel quantity timestep s)))"
  by (simp add: getLogValue_def split: option.splits)

subsection \<open>The force mode during a run\<close>

lemma ipcmmap_force_mode:
  "ipcmmap mapping s = Inr s' \<Longrightarrow> force_mode s' = force_mode s"
  by (auto simp: ipcmmap_def split: option.splits)

lemma reallocate_force_mode:
  "reallocate mapping s = Inr s' \<Longrightarrow> force_mode s' = force_mode s"
  by (auto simp: reallocate_def split: sum.splits dest: ipcmmap_force_mode)

lemma exchange_force_mode [simp]:
  "force_mode (sendPositions s) = force_mode s"
  "force_mode (sendNeighbors s) = force_mode s"
  "force_mode (sendForces f s) = force_mode s"
  "force_mode (receiveVirial v s) = force_mode s"
  "force_mode (faulted e s) = force_mode s"
  by (simp_all add: sendPositions_def sendNeighbors_def sendForces_def receiveVirial_def
      faulted_def)

lemma store_merged_force_mode [simp]: "force_mode (store_merged r s) = force_mode s"
  by (cases r) (simp_all add: store_merged_def)

lemma computeForces_force_mode:
  "force_mode (snd (computeForces diagnostic timestep mapping internalForces reply s))
     = force_mode s"
proof (cases "state s = Faulted")
  case True
  then show ?thesis by (simp add: computeForces_def)
next
  case False
  show ?thesis
  proof (cases "if m_pdata_getN s \<noteq> allocated_N s then reallocate mapping s else Inr s")
    case (Inl e)
    with False show ?thesis by (simp add: computeForces_def)
  next
    case (Inr s1)
    then have fm: "force_mode s1 = force_mode s"
      by (auto split: if_splits dest: reallocate_force_mode)
    from False Inr fm show ?thesis
      by (simp add: computeForces_def Let_def split: option.splits prod.splits sum.splits)
  qed
qed

lemma perform_force_mode: "force_mode (perform op s) = force_mode s"
proof (cases op)
  case (Reallocate mapping)
  then show ?thesis
    by (auto split: sum.splits dest: reallocate_force_mode)
next
  case (ComputeForces diagnostic timestep mapping internalForces reply)
  then show ?thesis by (simp add: computeForces_force_mode)
next
  case (Ipcmmap mapping)
  then show ?thesis
    by (auto split: sum.splits dest: ipcmmap_force_mode)
qed (simp_all add: getLogValue_def ipcmunmap_def)

lemma run_force_mode: "force_mode (run ops s) = force_mode s"
  by (induction ops arbitrary: s) (simp_all add: perform_force_mode)

text \<open>
  C8: after any sequence of the public and protected operations of the class on a
  coordinator (and of changes of the particle count by the engine), its force mode is
  the mode that was passed to the constructor.
\<close>

theorem force_mode_fixed_at_construction:
  "force_mode (run ops (TensorflowCompute_ctor N rcut nn mode log_name inbuf outbuf)) = mode"
  by (simp add: run_force_mode TensorflowCompute_ctor_def)

end
